theory Spec2Isabelle
  imports Main "HOL-Library.Sublist"
begin

section \<open>The shipments service (\<open>src/app.py\<close>)\<close>

text \<open>
  The service is one Flask module: a table \<open>envios\<close>, two response helpers and four
  handlers. The specification is written in English and the source in Spanish; the names
  correspond as follows.
  \<^item> recipient, address, status, registeredAt: \<open>destinatario\<close>, \<open>direccion\<close>,
    \<open>estado\<close>, \<open>fecha_registro\<close>;
  \<^item> \<open>/shipments\<close>: \<open>/envios\<close>; the default status "Registered": \<open>Registrado\<close>;
  \<^item> "Missing required fields: ": \<open>Faltan campos obligatorios: \<close>;
  \<^item> "Shipment not found": \<open>Envio no encontrado\<close>, whose \<open>i\<close> carries an acute accent
    (the code point 0xED);
  \<^item> "Error saving to database": \<open>Error al guardar en la base de datos\<close>.
  The model keeps the strings of the source.
\<close>

subsection \<open>Python values\<close>

text \<open>
  What \<open>request.json\<close> evaluates to: \<open>None\<close>, a bool, a number, a \<open>str\<close>, a list or a
  dict. A dict is an association list read with \<open>map_of\<close>. A JSON float takes the same
  branches of this program as an integer does (false when zero, not a container), so
  numbers are integers. A \<open>str\<close> is a \<open>string\<close>, a list of characters with code points
  below 256: strings with other characters are outside the model.
\<close>

datatype json =
    JNull
  | JBool bool
  | JNum int
  | JStr string
  | JArr "json list"
  | JObj "(string \<times> json) list"

text \<open>The exceptions of the program. The last four are the subclasses of
  \<open>SQLAlchemyError\<close> the session raises; \<open>except SQLAlchemyError\<close> catches these and
  no other.\<close>

datatype exn =
    HTTPException nat
  | TypeError
  | KeyError string
  | AttributeError
  | ValueError
  | IntegrityError
  | DataError
  | StatementError
  | OperationalError

fun is_SQLAlchemyError :: "exn \<Rightarrow> bool" where
  "is_SQLAlchemyError IntegrityError = True"
| "is_SQLAlchemyError DataError = True"
| "is_SQLAlchemyError StatementError = True"
| "is_SQLAlchemyError OperationalError = True"
| "is_SQLAlchemyError e = False"

text \<open>Truth value of a Python object, as \<open>or\<close> tests it.\<close>

fun truthy :: "json \<Rightarrow> bool" where
  "truthy JNull = False"
| "truthy (JBool b) = b"
| "truthy (JNum n) = (n \<noteq> 0)"
| "truthy (JStr s) = (s \<noteq> [])"
| "truthy (JArr xs) = (xs \<noteq> [])"
| "truthy (JObj kvs) = (kvs \<noteq> [])"

text \<open>\<open>f in data\<close>: key membership for a dict, element membership for a list, substring
  test for a \<open>str\<close>, \<open>TypeError\<close> for a value that is not a container.\<close>

fun py_in :: "string \<Rightarrow> json \<Rightarrow> exn + bool" where
  "py_in f (JObj kvs) = Inr (map_of kvs f \<noteq> None)"
| "py_in f (JArr xs) = Inr (JStr f \<in> set xs)"
| "py_in f (JStr s) = Inr (sublist f s)"
| "py_in f JNull = Inl TypeError"
| "py_in f (JBool b) = Inl TypeError"
| "py_in f (JNum n) = Inl TypeError"

text \<open>\<open>data[k]\<close> with a \<open>str\<close> key: only a dict accepts it.\<close>

fun py_getitem :: "json \<Rightarrow> string \<Rightarrow> exn + json" where
  "py_getitem (JObj kvs) k = (case map_of kvs k of None \<Rightarrow> Inl (KeyError k) | Some v \<Rightarrow> Inr v)"
| "py_getitem JNull k = Inl TypeError"
| "py_getitem (JBool b) k = Inl TypeError"
| "py_getitem (JNum n) k = Inl TypeError"
| "py_getitem (JStr s) k = Inl TypeError"
| "py_getitem (JArr xs) k = Inl TypeError"

text \<open>\<open>data.get(k, default)\<close>: a method of dicts only.\<close>

fun py_get :: "json \<Rightarrow> string \<Rightarrow> json \<Rightarrow> exn + json" where
  "py_get (JObj kvs) k dflt = Inr (case map_of kvs k of None \<Rightarrow> dflt | Some v \<Rightarrow> v)"
| "py_get JNull k dflt = Inl AttributeError"
| "py_get (JBool b) k dflt = Inl AttributeError"
| "py_get (JNum n) k dflt = Inl AttributeError"
| "py_get (JStr s) k dflt = Inl AttributeError"
| "py_get (JArr xs) k dflt = Inl AttributeError"

text \<open>\<open>sep.join(xs)\<close>.\<close>

fun join :: "string \<Rightarrow> string list \<Rightarrow> string" where
  "join sep [] = []"
| "join sep [x] = x"
| "join sep (x # y # ys) = x @ sep @ join sep (y # ys)"

subsection \<open>Timestamps\<close>

text \<open>
  A naive \<open>datetime\<close>, and \<open>str\<close> of it: \<open>YYYY-MM-DD HH:MM:SS\<close>, followed by
  \<open>.ffffff\<close> when the microseconds are not zero. \<open>zfill w k\<close> writes the \<open>w\<close> low
  decimal digits of \<open>k\<close>, which is \<open>%0wd\<close> for the ranges a \<open>datetime\<close> allows.
\<close>

record datetime =
  year :: nat
  month :: nat
  day :: nat
  hour :: nat
  minute :: nat
  second :: nat
  microsecond :: nat

primrec zfill :: "nat \<Rightarrow> nat \<Rightarrow> string" where
  "zfill 0 k = []"
| "zfill (Suc w) k = zfill w (k div 10) @ [''0123456789'' ! (k mod 10)]"

definition str_datetime :: "datetime \<Rightarrow> string" where
  "str_datetime t =
     zfill 4 (year t) @ ''-'' @ zfill 2 (month t) @ ''-'' @ zfill 2 (day t) @ '' '' @
     zfill 2 (hour t) @ '':'' @ zfill 2 (minute t) @ '':'' @ zfill 2 (second t) @
     (if microsecond t = 0 then [] else ''.'' @ zfill 6 (microsecond t))"

subsection \<open>The model \<open>Envio\<close>\<close>

text \<open>
  A row of the table \<open>envios\<close>, with the columns of the class \<open>Envio\<close>, and an instance
  as the constructor leaves it: the three attributes the handler passes, with the Python
  values it passes. The primary key is named \<open>envio_id\<close> here.
\<close>

record Envio =
  envio_id :: int
  destinatario :: string
  direccion :: string
  estado :: string
  fecha_registro :: datetime

record Envio_new =
  new_destinatario :: json
  new_direccion :: json
  new_estado :: json

definition to_dict :: "Envio \<Rightarrow> json" where
  "to_dict self = JObj
     [(''id'', JNum (envio_id self)),
      (''destinatario'', JStr (destinatario self)),
      (''direccion'', JStr (direccion self)),
      (''estado'', JStr (estado self)),
      (''fecha_registro'', JStr (str_datetime (fecha_registro self)))]"

subsection \<open>Standard responses\<close>

record response =
  body :: json
  status :: nat

definition ok :: "json \<Rightarrow> nat \<Rightarrow> response" where
  "ok data code = \<lparr>body = JObj [(''success'', JBool True), (''data'', data)], status = code\<rparr>"

definition error :: "string \<Rightarrow> nat \<Rightarrow> response" where
  "error message code =
     \<lparr>body = JObj [(''success'', JBool False), (''error'', JStr message)], status = code\<rparr>"

subsection \<open>The persistence layer\<close>

text \<open>
  Modelled from the spec: the module \<open>db\<close> and the SQLAlchemy session behind it
  (\<open>db.session.add\<close>, \<open>commit\<close>, \<open>rollback\<close>, \<open>Envio.query\<close>) are not under \<open>src/\<close>.
  The spec's persistence layer keeps one table; \<open>insert\<close> "creates a new record, assigns
  id and registeredAt, persists it, and returns the full stored record", and "fails with
  PersistenceError on constraint violation or connection failure"; any database call may
  fail when the connection is lost. The constraints are those the class \<open>Envio\<close>
  declares in the source: an auto-incremented 32-bit \<open>Integer\<close> primary key, three
  \<open>NOT NULL\<close> string columns of widths 120, 200 and 30, the default \<open>Registrado\<close>
  for \<open>estado\<close>, and the server's clock for \<open>fecha_registro\<close>.

  What a request cannot determine is an input of the model (\<open>env\<close>): the server's
  clock; whether the database is unreachable when the handler's query or commit is
  executed, and whether it is when a committed instance is read back afterwards; what the
  database driver does with a Python value that is neither \<open>None\<close> nor a \<open>str\<close> (the
  text it sends, or the exception it raises); and whether a statement the server refuses
  had drawn its key from the sequence before the refusal (a sequence is not rolled back).
\<close>

record env =
  now :: datetime
  db_down :: bool
  refresh_down :: bool
  adapt :: "json \<Rightarrow> exn + string"
  key_drawn :: bool

text \<open>The committed table, the last value drawn from the primary-key sequence, the
  instances added to the session and not yet flushed, and the rows written in the open
  transaction and not yet committed.\<close>

record db =
  rows :: "Envio list"
  seq :: int
  pending :: "Envio_new list"
  written :: "Envio list"

definition empty_db :: db where
  "empty_db = \<lparr>rows = [], seq = 0, pending = [], written = []\<rparr>"

text \<open>The largest value of the 32-bit key.\<close>

definition max_id :: int where
  "max_id = 2147483647"

text \<open>On the client, the driver turns an attribute into a parameter of the statement:
  \<open>None\<close> is \<open>NULL\<close>; a \<open>str\<close> is sent as it is unless it holds the character
  U+0000, which the driver refuses with a \<open>ValueError\<close>; any other value is the driver's
  matter.\<close>

definition param :: "env \<Rightarrow> json \<Rightarrow> exn + string option" where
  "param ev v =
     (case v of
        JNull \<Rightarrow> Inr None
      | JStr s \<Rightarrow> if CHR 0x00 \<in> set s then Inl ValueError else Inr (Some s)
      | _ \<Rightarrow> (case adapt ev v of Inl e \<Rightarrow> Inl e | Inr s \<Rightarrow> Inr (Some s)))"

text \<open>On the server, a string stored into \<open>VARCHAR(n)\<close>: a longer string is an error
  unless the excess is spaces only, which PostgreSQL cuts off.\<close>

definition fits :: "nat \<Rightarrow> string \<Rightarrow> exn + string" where
  "fits n s =
     (if length s \<le> n then Inr s
      else if set (drop n s) \<subseteq> {CHR '' ''} then Inr (take n s)
      else Inl DataError)"

text \<open>A \<open>NOT NULL\<close> string column of width \<open>n\<close>: \<open>NULL\<close> violates the constraint.\<close>

definition column :: "nat \<Rightarrow> string option \<Rightarrow> exn + string" where
  "column n p = (case p of None \<Rightarrow> Inl IntegrityError | Some s \<Rightarrow> fits n s)"

text \<open>What such a column stores for an attribute, client and server together.\<close>

definition varchar :: "env \<Rightarrow> nat \<Rightarrow> json \<Rightarrow> exn + string" where
  "varchar ev n v = (case param ev v of Inl e \<Rightarrow> Inl e | Inr p \<Rightarrow> column n p)"

text \<open>The column \<open>estado\<close> has \<open>default="Registrado"\<close>: the mapper leaves an attribute
  that is \<open>None\<close> out of the \<open>INSERT\<close>, and the default fills the column.\<close>

definition with_default :: "json \<Rightarrow> json" where
  "with_default v = (case v of JNull \<Rightarrow> JStr ''Registrado'' | _ \<Rightarrow> v)"

text \<open>The state after the server has refused a statement: nothing is written, and the
  key the statement may have drawn is gone.\<close>

definition refused :: "env \<Rightarrow> db \<Rightarrow> db" where
  "refused ev d = d\<lparr>seq := (if key_drawn ev then seq d + 1 else seq d)\<rparr>"

text \<open>
  The \<open>INSERT\<close> of one instance, in the order of the events: the connection, the
  parameters on the client, then on the server the sequence (exhausted after
  \<open>max_id\<close>), the widths and the \<open>NOT NULL\<close> constraints. A stored row has the next
  value of the sequence as its key and the server's clock as its \<open>fecha_registro\<close>; it
  is written in the open transaction. A failure gives the exception and the state it
  leaves.
\<close>

definition insert_row :: "env \<Rightarrow> db \<Rightarrow> Envio_new \<Rightarrow> exn \<times> db + db \<times> Envio" where
  "insert_row ev d x =
     (if db_down ev then Inl (OperationalError, d)
      else case param ev (new_destinatario x) of Inl e \<Rightarrow> Inl (e, d) | Inr p1 \<Rightarrow>
           case param ev (new_direccion x) of Inl e \<Rightarrow> Inl (e, d) | Inr p2 \<Rightarrow>
           case param ev (with_default (new_estado x)) of Inl e \<Rightarrow> Inl (e, d) | Inr p3 \<Rightarrow>
           if max_id \<le> seq d then Inl (DataError, d)
           else case column 120 p1 of Inl e \<Rightarrow> Inl (e, refused ev d) | Inr dest \<Rightarrow>
                case column 200 p2 of Inl e \<Rightarrow> Inl (e, refused ev d) | Inr dir \<Rightarrow>
                case column 30 p3 of Inl e \<Rightarrow> Inl (e, refused ev d) | Inr est \<Rightarrow>
                  (let r = \<lparr>envio_id = seq d + 1, destinatario = dest, direccion = dir,
                            estado = est, fecha_registro = now ev\<rparr>
                   in Inr (d\<lparr>seq := seq d + 1, written := written d @ [r]\<rparr>, r)))"

text \<open>The flush of pending instances, in the order they were added; the first failure
  ends it.\<close>

fun flush :: "env \<Rightarrow> db \<Rightarrow> Envio_new list \<Rightarrow> exn \<times> db + db \<times> Envio list" where
  "flush ev d [] = Inr (d, [])"
| "flush ev d (x # xs) =
     (case insert_row ev d x of
        Inl f \<Rightarrow> Inl f
      | Inr (d', r) \<Rightarrow>
          (case flush ev d' xs of Inl f \<Rightarrow> Inl f | Inr (d'', rs) \<Rightarrow> Inr (d'', r # rs)))"

definition session_add :: "db \<Rightarrow> Envio_new \<Rightarrow> db" where
  "session_add d x = d\<lparr>pending := pending d @ [x]\<rparr>"

text \<open>\<open>commit\<close> flushes the pending instances and makes the rows of the transaction
  part of the table; it returns the new state and the rows the instances became (the
  instances are refreshed from them). When it raises, the state is the one the failed
  flush left: the session still holds its instances and the transaction its rows.\<close>

definition session_commit :: "env \<Rightarrow> db \<Rightarrow> exn \<times> db + db \<times> Envio list" where
  "session_commit ev d =
     (case flush ev d (pending d) of
        Inl f \<Rightarrow> Inl f
      | Inr (d', rs) \<Rightarrow>
          Inr (d'\<lparr>rows := rows d' @ written d', pending := [], written := []\<rparr>, rs))"

text \<open>\<open>rollback\<close> drops the rows of the transaction and the pending instances.\<close>

definition session_rollback :: "db \<Rightarrow> db" where
  "session_rollback d = d\<lparr>pending := [], written := []\<rparr>"

text \<open>A commit expires the attributes of the instance: the first read of one of them
  afterwards loads the row from the database again, and raises when the database is
  unreachable by then.\<close>

definition refresh :: "env \<Rightarrow> Envio \<Rightarrow> exn + Envio" where
  "refresh ev r = (if refresh_down ev then Inl OperationalError else Inr r)"

text \<open>\<open>Envio.query.all()\<close> and \<open>Envio.query.get(id)\<close>, the lookup by primary key:
  they read the committed table, and raise when the database is unreachable.\<close>

definition query_all :: "env \<Rightarrow> db \<Rightarrow> exn + Envio list" where
  "query_all ev d = (if db_down ev then Inl OperationalError else Inr (rows d))"

definition query_get :: "env \<Rightarrow> db \<Rightarrow> int \<Rightarrow> exn + Envio option" where
  "query_get ev d i =
     (if db_down ev then Inl OperationalError
      else Inr (find (\<lambda>e. envio_id e = i) (rows d)))"

subsection \<open>The handlers\<close>

text \<open>A handler gives the response it returns, or the exception that leaves it
  uncaught. The read handlers have no \<open>try\<close>: an exception of the query leaves them.\<close>

definition health :: response where
  "health = ok (JObj [(''status'', JStr ''ok'')]) 200"

definition listar_envios :: "env \<Rightarrow> db \<Rightarrow> exn + response" where
  "listar_envios ev d =
     (case query_all ev d of
        Inl e \<Rightarrow> Inl e
      | Inr envios \<Rightarrow> Inr (ok (JArr (map to_dict envios)) 200))"

definition obtener_envio :: "env \<Rightarrow> db \<Rightarrow> int \<Rightarrow> exn + response" where
  "obtener_envio ev d i =
     (case query_get ev d i of
        Inl e \<Rightarrow> Inl e
      | Inr None \<Rightarrow> Inr (error (''Env'' @ [CHR 0xED] @ ''o no encontrado'') 404)
      | Inr (Some envio) \<Rightarrow> Inr (ok (to_dict envio) 200))"

definition required :: "string list" where
  "required = [''destinatario'', ''direccion'']"

text \<open>\<open>[f for f in required if f not in data]\<close>; an exception of \<open>in\<close> ends it.\<close>

fun missing_fields :: "string list \<Rightarrow> json \<Rightarrow> exn + string list" where
  "missing_fields [] data = Inr []"
| "missing_fields (f # fs) data =
     (case py_in f data of
        Inl e \<Rightarrow> Inl e
      | Inr present \<Rightarrow>
          (case missing_fields fs data of
             Inl e \<Rightarrow> Inl e
           | Inr ms \<Rightarrow> Inr (if present then ms else f # ms)))"

text \<open>The \<open>except\<close> clause of \<open>crear_envio\<close>, for an exception raised in its \<open>try\<close>
  block with the session in state \<open>d\<close>: it catches an \<open>SQLAlchemyError\<close> only; any
  other exception leaves the handler, and the session is not rolled back.\<close>

definition except_SQLAlchemyError :: "exn \<Rightarrow> db \<Rightarrow> db \<times> (exn + response)" where
  "except_SQLAlchemyError e d =
     (if is_SQLAlchemyError e then
        (session_rollback d, Inr (error ''Error al guardar en la base de datos'' 500))
      else (d, Inl e))"

text \<open>
  \<open>crear_envio\<close> takes what \<open>request.json\<close> evaluates to, or the exception it raises
  (\<open>Inl\<close>), and gives the new state with the response, or with the exception that leaves
  the handler uncaught. The \<open>try\<close> block holds the \<open>add\<close>, the \<open>commit\<close> and the
  \<open>return\<close> with its call of \<open>to_dict\<close>, which reads the instance back; after a
  commit the instance is the row flushed last.
\<close>

definition crear_envio :: "env \<Rightarrow> db \<Rightarrow> exn + json \<Rightarrow> db \<times> (exn + response)" where
  "crear_envio ev d request_json =
     (case request_json of
        Inl e \<Rightarrow> (d, Inl e)
      | Inr j \<Rightarrow>
          (let data = (if truthy j then j else JObj []) in
           case missing_fields required data of
             Inl e \<Rightarrow> (d, Inl e)
           | Inr missing \<Rightarrow>
               if missing \<noteq> [] then
                 (d, Inr (error (''Faltan campos obligatorios: '' @ join '', '' missing) 400))
               else
                 case py_getitem data ''destinatario'' of Inl e \<Rightarrow> (d, Inl e) | Inr dest \<Rightarrow>
                 case py_getitem data ''direccion'' of Inl e \<Rightarrow> (d, Inl e) | Inr dir \<Rightarrow>
                 case py_get data ''estado'' (JStr ''Registrado'') of Inl e \<Rightarrow> (d, Inl e) | Inr est \<Rightarrow>
                   (let envio = \<lparr>new_destinatario = dest, new_direccion = dir, new_estado = est\<rparr>;
                        d1 = session_add d envio
                    in case session_commit ev d1 of
                         Inl (e, d2) \<Rightarrow> except_SQLAlchemyError e d2
                       | Inr (d2, stored) \<Rightarrow>
                           (case refresh ev (last stored) of
                              Inl e \<Rightarrow> except_SQLAlchemyError e d2
                            | Inr envio' \<Rightarrow> (d2, Inr (ok (to_dict envio') 201))))))"

subsection \<open>The framework around the handlers\<close>



definition shutdown_session :: "db \<Rightarrow> db" where
  "shutdown_session d = session_rollback d"

text \<open>The four routes, and the service handling a sequence of requests one after the
  other. A request that reaches the database carries what its handler reads from
  outside: the environment and, for a \<open>POST\<close>, the outcome of \<open>request.json\<close>.\<close>

datatype request =
    GET_health
  | GET_envios env
  | GET_envio env int
  | POST_envios env "exn + json"

fun route :: "db \<Rightarrow> request \<Rightarrow> db \<times> (exn + response)" where
  "route d GET_health = (d, Inr health)"
| "route d (GET_envios ev) = (d, listar_envios ev d)"
| "route d (GET_envio ev i) = (d, obtener_envio ev d i)"
| "route d (POST_envios ev rq) =
     (case crear_envio ev d rq of (d', out) \<Rightarrow> (shutdown_session d', out))"

fun serve :: "db \<Rightarrow> request list \<Rightarrow> db \<times> (exn + response) list" where
  "serve d [] = (d, [])"
| "serve d (r # rs) =
     (case route d r of (d', out) \<Rightarrow>
        (case serve d' rs of (d'', outs) \<Rightarrow> (d'', out # outs)))"

subsection \<open>Predicates of the properties\<close>

text \<open>A state between two requests: the session and the transaction are empty, the
  primary keys are distinct and none is beyond the sequence.\<close>

definition db_ok :: "db \<Rightarrow> bool" where
  "db_ok d \<longleftrightarrow>
     pending d = [] \<and> written d = [] \<and> distinct (map envio_id (rows d)) \<and>
     (\<forall>e \<in> set (rows d). envio_id e \<le> seq d)"


text \<open>The ids a response shows: the \<open>id\<close> of the object under \<open>data\<close>, or of each object
  of the list under \<open>data\<close>.\<close>

fun shipment_id :: "json \<Rightarrow> int option" where
  "shipment_id (JObj kvs) = (case map_of kvs ''id'' of Some (JNum i) \<Rightarrow> Some i | _ \<Rightarrow> None)"
| "shipment_id JNull = None"
| "shipment_id (JBool b) = None"
| "shipment_id (JNum n) = None"
| "shipment_id (JStr s) = None"
| "shipment_id (JArr xs) = None"

definition returned_ids :: "exn + response \<Rightarrow> int set" where
  "returned_ids out =
     (case out of
        Inl e \<Rightarrow> {}
      | Inr r \<Rightarrow>
          (case body r of
             JObj kvs \<Rightarrow>
               (case map_of kvs ''data'' of
                  None \<Rightarrow> {}
                | Some (JArr xs) \<Rightarrow> set (List.map_filter shipment_id xs)
                | Some x \<Rightarrow> set_option (shipment_id x))
           | _ \<Rightarrow> {}))"


text \<open>Fixtures of the examples: a clock reading, a driver that refuses every value that
  is neither \<open>None\<close> nor a \<open>str\<close>, an environment with the database up, one with
  the database down, and one in which the database is lost after the commit.\<close>

definition t0 :: datetime where
  "t0 = \<lparr>year = 2024, month = 5, day = 17, hour = 9, minute = 30, second = 0, microsecond = 0\<rparr>"

definition strict_driver :: "json \<Rightarrow> exn + string" where
  "strict_driver v = Inl StatementError"

definition ev_up :: env where
  "ev_up = \<lparr>now = t0, db_down = False, refresh_down = False, adapt = strict_driver,
            key_drawn = True\<rparr>"

definition ev_down :: env where
  "ev_down = \<lparr>now = t0, db_down = True, refresh_down = True, adapt = strict_driver,
              key_drawn = True\<rparr>"


section \<open>Lemmas about the handlers\<close>

subsection \<open>The paths of \<open>crear_envio\<close>\<close>

lemma data_dict: "(if truthy (JObj kvs) then JObj kvs else JObj []) = JObj kvs"
  by (cases kvs) simp_all

lemma missing_fields_dict:
  "missing_fields required (JObj kvs) = Inr (filter (\<lambda>f. map_of kvs f = None) required)"
  by (simp add: required_def)

lemma crear_envio_absent:
  assumes "map_of kvs ''destinatario'' = None \<or> map_of kvs ''direccion'' = None"
  shows "crear_envio ev d (Inr (JObj kvs)) =
    (d, Inr (error (''Faltan campos obligatorios: '' @
       join '', '' (filter (\<lambda>f. map_of kvs f = None) required)) 400))"
  using assms
  unfolding crear_envio_def
  by (simp only: sum.case Let_def data_dict missing_fields_dict) (auto simp: required_def)

lemma crear_envio_present:
  assumes "map_of kvs ''destinatario'' = Some v1" "map_of kvs ''direccion'' = Some v2"
  shows "crear_envio ev d (Inr (JObj kvs)) =
     (case session_commit ev (session_add d
              \<lparr>new_destinatario = v1, new_direccion = v2,
               new_estado = (case map_of kvs ''estado'' of None \<Rightarrow> JStr ''Registrado'' | Some v \<Rightarrow> v)\<rparr>) of
        Inl (e, d2) \<Rightarrow> except_SQLAlchemyError e d2
      | Inr (d2, stored) \<Rightarrow>
          (case refresh ev (last stored) of
             Inl e \<Rightarrow> except_SQLAlchemyError e d2
           | Inr envio' \<Rightarrow> (d2, Inr (ok (to_dict envio') 201))))"
  using assms
  unfolding crear_envio_def
  by (simp only: sum.case Let_def data_dict missing_fields_dict) (simp add: required_def)

text \<open>What an \<open>INSERT\<close> does to the state.\<close>

lemma insert_row_Inr:
  assumes "insert_row ev d x = Inr (d', r)"
  shows "d' = d\<lparr>seq := seq d + 1, written := written d @ [r]\<rparr> \<and> envio_id r = seq d + 1
         \<and> fecha_registro r = now ev
         \<and> varchar ev 120 (new_destinatario x) = Inr (destinatario r)
         \<and> varchar ev 200 (new_direccion x) = Inr (direccion r)
         \<and> varchar ev 30 (with_default (new_estado x)) = Inr (estado r)
         \<and> \<not> db_down ev \<and> seq d < max_id"
  using assms
  by (auto simp: insert_row_def varchar_def Let_def split: if_splits sum.splits)

lemma insert_row_Inl:
  assumes "insert_row ev d x = Inl (e, d')"
  shows "rows d' = rows d \<and> written d' = written d \<and> pending d' = pending d
         \<and> seq d \<le> seq d' \<and> seq d' \<le> seq d + 1"
  using assms
  by (auto simp: insert_row_def refused_def Let_def split: if_splits sum.splits)

lemma flush_Inl:
  "flush ev d xs = Inl (e, d') \<Longrightarrow> rows d' = rows d \<and> pending d' = pending d \<and> seq d \<le> seq d'"
proof (induction xs arbitrary: d)
  case Nil
  then show ?case by simp
next
  case (Cons x xs)
  show ?case
  proof (cases "insert_row ev d x")
    case (Inl f)
    with Cons.prems have "insert_row ev d x = Inl (e, d')" by simp
    from insert_row_Inl [OF this] show ?thesis by simp
  next
    case (Inr p)
    obtain d1 r where p: "p = (d1, r)" by (cases p)
    from insert_row_Inr [OF Inr [unfolded p]]
    have d1: "rows d1 = rows d" "pending d1 = pending d" "seq d \<le> seq d1" by simp_all
    from Cons.prems Inr p have "flush ev d1 xs = Inl (e, d')"
      by (auto split: sum.splits)
    from Cons.IH [OF this] d1 show ?thesis by simp
  qed
qed

lemma flush_length: "flush ev d xs = Inr (d', rs) \<Longrightarrow> length rs = length xs"
  by (induction xs arbitrary: d d' rs) (auto split: sum.splits prod.splits)

lemma commit_Inl:
  assumes "session_commit ev d = Inl (e, d')"
  shows "rows d' = rows d \<and> pending d' = pending d \<and> seq d \<le> seq d'"
proof -
  from assms have "flush ev d (pending d) = Inl (e, d')"
    by (auto simp: session_commit_def split: sum.splits)
  from flush_Inl [OF this] show ?thesis .
qed

lemma commit_stored:
  assumes "session_commit ev (session_add d x) = Inr (d', stored)"
  shows "stored \<noteq> []"
proof -
  from assms obtain d1 where "flush ev (session_add d x) (pending d @ [x]) = Inr (d1, stored)"
    by (auto simp: session_commit_def session_add_def split: sum.splits prod.splits)
  from flush_length [OF this] show ?thesis by auto
qed

text \<open>The commit of one instance from a state between requests.\<close>

lemma commit_one:
  assumes "pending d = []" "written d = []"
  shows "session_commit ev (session_add d x) =
     (case insert_row ev (session_add d x) x of
        Inl f \<Rightarrow> Inl f
      | Inr (d', r) \<Rightarrow>
          Inr (\<lparr>rows = rows d @ [r], seq = seq d + 1, pending = [], written = []\<rparr>, [r]))"
proof (cases "insert_row ev (session_add d x) x")
  case (Inl f)
  with assms show ?thesis by (simp add: session_commit_def session_add_def)
next
  case (Inr p)
  obtain d' r where p: "p = (d', r)" by (cases p)
  from insert_row_Inr [OF Inr [unfolded p]]
  have "d' = (session_add d x)\<lparr>seq := seq (session_add d x) + 1,
            written := written (session_add d x) @ [r]\<rparr>" by simp
  with assms Inr p show ?thesis by (simp add: session_commit_def session_add_def)
qed

text \<open>Bodies that are not objects never reach the session.\<close>

lemma crear_envio_raises: "crear_envio ev d (Inl e) = (d, Inl e)"
  by (simp add: crear_envio_def)

lemma crear_envio_falsy:
  "\<not> truthy j \<Longrightarrow> crear_envio ev d (Inr j) =
     (d, Inr (error ''Faltan campos obligatorios: destinatario, direccion'' 400))"
  by (simp add: crear_envio_def required_def)

lemma crear_envio_not_dict:
  assumes "\<forall>kvs. j \<noteq> JObj kvs"
  shows "fst (crear_envio ev d (Inr j)) = d \<and>
         (\<forall>resp. snd (crear_envio ev d (Inr j)) = Inr resp \<longrightarrow>
            resp = error ''Faltan campos obligatorios: destinatario, direccion'' 400
          \<or> resp = error ''Faltan campos obligatorios: destinatario'' 400
          \<or> resp = error ''Faltan campos obligatorios: direccion'' 400)"
proof (cases "truthy j")
  case False
  then show ?thesis by (simp add: crear_envio_falsy)
next
  case True
  with assms show ?thesis
    by (cases j) (auto simp: crear_envio_def required_def Let_def split: sum.splits)
qed

text \<open>The outcomes of a create with an object body on a state between requests.\<close>

lemma crear_envio_dict_cases:
  assumes p: "pending d = []" and w: "written d = []"
  obtains
    (absent) "map_of kvs ''destinatario'' = None \<or> map_of kvs ''direccion'' = None"
      "crear_envio ev d (Inr (JObj kvs)) =
         (d, Inr (error (''Faltan campos obligatorios: '' @
            join '', '' (filter (\<lambda>f. map_of kvs f = None) required)) 400))"
  | (refused) v1 v2 s where
      "map_of kvs ''destinatario'' = Some v1" "map_of kvs ''direccion'' = Some v2" "seq d \<le> s"
      "crear_envio ev d (Inr (JObj kvs)) =
         (d\<lparr>seq := s\<rparr>, Inr (error ''Error al guardar en la base de datos'' 500))"
  | (raised) v1 v2 e d' where
      "map_of kvs ''destinatario'' = Some v1" "map_of kvs ''direccion'' = Some v2"
      "\<not> is_SQLAlchemyError e" "rows d' = rows d" "written d' = []" "seq d \<le> seq d'"
      "crear_envio ev d (Inr (JObj kvs)) = (d', Inl e)"
  | (stored) v1 v2 r where
      "map_of kvs ''destinatario'' = Some v1" "map_of kvs ''direccion'' = Some v2"
      "varchar ev 120 v1 = Inr (destinatario r)" "varchar ev 200 v2 = Inr (direccion r)"
      "varchar ev 30 (with_default
          (case map_of kvs ''estado'' of None \<Rightarrow> JStr ''Registrado'' | Some v \<Rightarrow> v))
         = Inr (estado r)"
      "envio_id r = seq d + 1" "fecha_registro r = now ev" "\<not> db_down ev" "seq d < max_id"
      "\<not> refresh_down ev"
      "crear_envio ev d (Inr (JObj kvs)) =
         (\<lparr>rows = rows d @ [r], seq = seq d + 1, pending = [], written = []\<rparr>,
          Inr (ok (to_dict r) 201))"
  | (lost) v1 v2 r where
      "map_of kvs ''destinatario'' = Some v1" "map_of kvs ''direccion'' = Some v2"
      "varchar ev 120 v1 = Inr (destinatario r)" "varchar ev 200 v2 = Inr (direccion r)"
      "varchar ev 30 (with_default
          (case map_of kvs ''estado'' of None \<Rightarrow> JStr ''Registrado'' | Some v \<Rightarrow> v))
         = Inr (estado r)"
      "envio_id r = seq d + 1" "fecha_registro r = now ev" "\<not> db_down ev" "seq d < max_id"
      "refresh_down ev"
      "crear_envio ev d (Inr (JObj kvs)) =
         (\<lparr>rows = rows d @ [r], seq = seq d + 1, pending = [], written = []\<rparr>,
          Inr (error ''Error al guardar en la base de datos'' 500))"
proof (cases "map_of kvs ''destinatario'' = None \<or> map_of kvs ''direccion'' = None")
  case True
  then show ?thesis by (rule absent) (simp only: True crear_envio_absent)
next
  case False
  then obtain v1 v2 where v: "map_of kvs ''destinatario'' = Some v1" "map_of kvs ''direccion'' = Some v2"
    by auto
  let ?x = "\<lparr>new_destinatario = v1, new_direccion = v2,
             new_estado = (case map_of kvs ''estado'' of None \<Rightarrow> JStr ''Registrado'' | Some v \<Rightarrow> v)\<rparr>"
  show ?thesis
  proof (cases "insert_row ev (session_add d ?x) ?x")
    case (Inl f)
    obtain e d' where f: "f = (e, d')" by (cases f)
    from insert_row_Inl [OF Inl [unfolded f]] p w
    have d': "rows d' = rows d" "written d' = []" "pending d' = [?x]" "seq d \<le> seq d'"
      by (simp_all add: session_add_def)
    have c: "crear_envio ev d (Inr (JObj kvs)) =
        (if is_SQLAlchemyError e then
           (session_rollback d', Inr (error ''Error al guardar en la base de datos'' 500))
         else (d', Inl e))"
      by (simp add: crear_envio_present [OF v] commit_one [OF p w] Inl f
          except_SQLAlchemyError_def)
    show ?thesis
    proof (cases "is_SQLAlchemyError e")
      case True
      have "session_rollback d' = d\<lparr>seq := seq d'\<rparr>"
        using d' p w by (simp add: session_rollback_def db.equality)
      with c True have "crear_envio ev d (Inr (JObj kvs)) =
          (d\<lparr>seq := seq d'\<rparr>, Inr (error ''Error al guardar en la base de datos'' 500))"
        by simp
      with v d'(4) show ?thesis by (rule refused)
    next
      case False
      with c have "crear_envio ev d (Inr (JObj kvs)) = (d', Inl e)" by simp
      with v False d'(1,2,4) show ?thesis by (rule raised)
    qed
  next
    case (Inr q)
    obtain d' r where q: "q = (d', r)" by (cases q)
    from insert_row_Inr [OF Inr [unfolded q]]
    have r: "varchar ev 120 v1 = Inr (destinatario r)" "varchar ev 200 v2 = Inr (direccion r)"
      "varchar ev 30 (with_default
          (case map_of kvs ''estado'' of None \<Rightarrow> JStr ''Registrado'' | Some v \<Rightarrow> v))
         = Inr (estado r)"
      "envio_id r = seq d + 1" "fecha_registro r = now ev" "\<not> db_down ev" "seq d < max_id"
      by (simp_all add: session_add_def)
    show ?thesis
    proof (cases "refresh_down ev")
      case False
      then have "crear_envio ev d (Inr (JObj kvs)) =
          (\<lparr>rows = rows d @ [r], seq = seq d + 1, pending = [], written = []\<rparr>,
           Inr (ok (to_dict r) 201))"
        using Inr q by (simp add: crear_envio_present [OF v] commit_one [OF p w] refresh_def)
      with v r False show ?thesis by (rule stored)
    next
      case True
      then have "crear_envio ev d (Inr (JObj kvs)) =
          (\<lparr>rows = rows d @ [r], seq = seq d + 1, pending = [], written = []\<rparr>,
           Inr (error ''Error al guardar en la base de datos'' 500))"
        using Inr q
        by (simp add: crear_envio_present [OF v] commit_one [OF p w] refresh_def
            except_SQLAlchemyError_def session_rollback_def)
      with v r True show ?thesis by (rule lost)
    qed
  qed
qed

subsection \<open>The ids a response shows, and the states the service reaches\<close>

lemma returned_ids_error [simp]: "returned_ids (Inr (error m c)) = {}"
  by (simp add: returned_ids_def error_def)

lemma returned_ids_Inl [simp]: "returned_ids (Inl e) = {}"
  by (simp add: returned_ids_def)

lemma shipment_id_to_dict [simp]: "shipment_id (to_dict r) = Some (envio_id r)"
  by (simp add: to_dict_def)

lemma returned_ids_ok_to_dict [simp]: "returned_ids (Inr (ok (to_dict r) c)) = {envio_id r}"
  by (simp add: returned_ids_def ok_def) (simp add: to_dict_def)

lemma map_filter_to_dict: "List.map_filter shipment_id (map to_dict rs) = map envio_id rs"
  by (induction rs) (simp_all add: List.map_filter_simps)

lemma returned_ids_health: "returned_ids (Inr health) = {}"
  by (simp add: returned_ids_def health_def ok_def)

lemma returned_ids_listar: "returned_ids (listar_envios ev d) \<subseteq> envio_id ` set (rows d)"
proof (cases "db_down ev")
  case True
  then show ?thesis by (simp add: listar_envios_def query_all_def)
next
  case False
  then have "listar_envios ev d = Inr (ok (JArr (map to_dict (rows d))) 200)"
    by (simp add: listar_envios_def query_all_def)
  then show ?thesis
    by (simp add: returned_ids_def ok_def map_filter_to_dict)
qed

lemma find_id_Some: "find (\<lambda>e. envio_id e = i) rs = Some e \<Longrightarrow> e \<in> set rs \<and> envio_id e = i"
  by (induction rs) (auto split: if_splits)

lemma find_id_None: "(find (\<lambda>e. envio_id e = i) rs = None) = (\<forall>e \<in> set rs. envio_id e \<noteq> i)"
  by (induction rs) auto

lemma find_id_distinct:
  assumes "distinct (map envio_id rs)" "e \<in> set rs"
  shows "find (\<lambda>x. envio_id x = envio_id e) rs = Some e"
  using assms by (induction rs) (auto simp: image_iff)

lemma obtener_envio_up:
  assumes "\<not> db_down ev"
  shows "obtener_envio ev d i =
     (case find (\<lambda>e. envio_id e = i) (rows d) of
        None \<Rightarrow> Inr (error (''Env'' @ [CHR 0xED] @ ''o no encontrado'') 404)
      | Some envio \<Rightarrow> Inr (ok (to_dict envio) 200))"
  using assms by (simp add: obtener_envio_def query_get_def)

lemma obtener_envio_down: "db_down ev \<Longrightarrow> obtener_envio ev d i = Inl OperationalError"
  by (simp add: obtener_envio_def query_get_def)



lemma returned_ids_obtener: "returned_ids (obtener_envio ev d i) \<subseteq> envio_id ` set (rows d)"
proof (cases "db_down ev")
  case True
  then show ?thesis by (simp add: obtener_envio_down)
next
  case False
  show ?thesis
  proof (cases "find (\<lambda>e. envio_id e = i) (rows d)")
    case None
    with False show ?thesis by (simp add: obtener_envio_up)
  next
    case (Some e)
    from find_id_Some [OF Some] have "envio_id e \<in> envio_id ` set (rows d)" by blast
    with False Some show ?thesis by (simp add: obtener_envio_up)
  qed
qed

text \<open>One create, from a state between requests: either no row is stored and no id
  shown, or one row is stored under the next key; then the response shows it with status
  201, unless reading it back failed.\<close>

lemma crear_envio_step:
  assumes p: "pending d = []" and w: "written d = []"
  shows "(rows (fst (crear_envio ev d rq)) = rows d \<and> written (fst (crear_envio ev d rq)) = [] \<and>
          seq d \<le> seq (fst (crear_envio ev d rq)) \<and>
          returned_ids (snd (crear_envio ev d rq)) = {} \<and>
          (\<forall>resp. snd (crear_envio ev d rq) = Inr resp \<longrightarrow> status resp \<noteq> 201))
       \<or> (\<exists>r. envio_id r = seq d + 1 \<and> fecha_registro r = now ev \<and> seq d < max_id \<and>
             crear_envio ev d rq =
               (\<lparr>rows = rows d @ [r], seq = seq d + 1, pending = [], written = []\<rparr>,
                Inr (ok (to_dict r) 201)))
       \<or> (\<exists>r. envio_id r = seq d + 1 \<and> fecha_registro r = now ev \<and> seq d < max_id \<and>
             crear_envio ev d rq =
               (\<lparr>rows = rows d @ [r], seq = seq d + 1, pending = [], written = []\<rparr>,
                Inr (error ''Error al guardar en la base de datos'' 500)))"
  (is "?F \<or> ?S \<or> ?T")
proof (cases rq)
  case (Inl e)
  with w have ?F by (simp add: crear_envio_raises)
  then show ?thesis by (rule disjI1)
next
  case (Inr j)
  show ?thesis
  proof (cases "\<exists>kvs. j = JObj kvs")
    case False
    then have n: "\<forall>kvs. j \<noteq> JObj kvs" by simp
    note nd = crear_envio_not_dict [OF n, of ev d]
    have st: "\<forall>resp. snd (crear_envio ev d (Inr j)) = Inr resp \<longrightarrow> status resp \<noteq> 201"
    proof (intro allI impI)
      fix resp assume "snd (crear_envio ev d (Inr j)) = Inr resp"
      with nd obtain m where "resp = error m 400" by blast
      then show "status resp \<noteq> 201" by (simp add: error_def)
    qed
    have ids: "returned_ids (snd (crear_envio ev d (Inr j))) = {}"
    proof (cases "snd (crear_envio ev d (Inr j))")
      case (Inl e)
      then show ?thesis by simp
    next
      case (Inr resp)
      with nd obtain m where "resp = error m 400" by blast
      with Inr show ?thesis by simp
    qed
    from nd have "fst (crear_envio ev d (Inr j)) = d" by simp
    with w st ids have ?F unfolding Inr by simp
    then show ?thesis by (rule disjI1)
  next
    case True
    then obtain kvs where j: "rq = Inr (JObj kvs)" using Inr by blast
    from p w show ?thesis
    proof (cases rule: crear_envio_dict_cases [where kvs = kvs and ev = ev])
      case absent
      from absent(2) have "returned_ids (snd (crear_envio ev d (Inr (JObj kvs)))) = {}"
        and "\<forall>resp. snd (crear_envio ev d (Inr (JObj kvs))) = Inr resp \<longrightarrow> status resp \<noteq> 201"
        by (simp, simp add: error_def)
      with absent(2) w have ?F unfolding j by simp
      then show ?thesis by (rule disjI1)
    next
      case (refused v1 v2 s)
      from refused(4) have "returned_ids (snd (crear_envio ev d (Inr (JObj kvs)))) = {}"
        and "\<forall>resp. snd (crear_envio ev d (Inr (JObj kvs))) = Inr resp \<longrightarrow> status resp \<noteq> 201"
        by (simp, simp add: error_def)
      with refused(3,4) w have ?F unfolding j by simp
      then show ?thesis by (rule disjI1)
    next
      case (raised v1 v2 e d')
      from raised(4-7) have ?F unfolding j by simp
      then show ?thesis by (rule disjI1)
    next
      case (stored v1 v2 r)
      from stored(6,7,9,11) have ?S unfolding j by blast
      then show ?thesis by (intro disjI2 disjI1)
    next
      case (lost v1 v2 r)
      from lost(6,7,9,11) have ?T unfolding j by blast
      then show ?thesis by (intro disjI2)
    qed
  qed
qed

lemma db_ok_empty: "db_ok empty_db"
  by (simp add: db_ok_def empty_db_def)

lemma db_ok_append:
  assumes "db_ok d" "envio_id r = seq d + 1"
  shows "db_ok \<lparr>rows = rows d @ [r], seq = seq d + 1, pending = [], written = []\<rparr>"
  using assms by (fastforce simp: db_ok_def)

lemma db_ok_shutdown:
  assumes "db_ok d" "rows d' = rows d" "seq d \<le> seq d'"
  shows "db_ok (shutdown_session d')"
  using assms by (fastforce simp: db_ok_def shutdown_session_def session_rollback_def)

lemma shutdown_ok: "db_ok d \<Longrightarrow> shutdown_session d = d"
  by (simp add: db_ok_def shutdown_session_def session_rollback_def)

lemma route_step:
  assumes ok: "db_ok d" and r: "route d rq = (d', out)"
  shows "db_ok d' \<and> seq d \<le> seq d' \<and> (\<forall>i \<in> returned_ids out. i \<le> seq d')"
proof (cases rq)
  case GET_health
  with ok r show ?thesis by (auto simp: returned_ids_health)
next
  case (GET_envios ev)
  with r have "d' = d" "out = listar_envios ev d" by auto
  with ok returned_ids_listar [of ev d] show ?thesis by (auto simp: db_ok_def)
next
  case (GET_envio ev i)
  with r have "d' = d" "out = obtener_envio ev d i" by auto
  with ok returned_ids_obtener [of ev d i] show ?thesis by (auto simp: db_ok_def)
next
  case (POST_envios ev j)
  from ok have p: "pending d = []" and w: "written d = []" by (simp_all add: db_ok_def)
  obtain d1 where c: "crear_envio ev d j = (d1, out)" and d': "d' = shutdown_session d1"
    using r POST_envios by (auto split: prod.splits)
  from crear_envio_step [OF p w, of ev j]
  show ?thesis
  proof (elim disjE exE conjE)
    assume "rows (fst (crear_envio ev d j)) = rows d"
      "seq d \<le> seq (fst (crear_envio ev d j))"
      "returned_ids (snd (crear_envio ev d j)) = {}"
    with c have a: "rows d1 = rows d" "seq d \<le> seq d1" "returned_ids out = {}" by simp_all
    from db_ok_shutdown [OF ok a(1,2)] d' have "db_ok d'" by simp
    moreover from a(2) d' have "seq d \<le> seq d'"
      by (simp add: shutdown_session_def session_rollback_def)
    ultimately show ?thesis using a(3) by simp
  next
    fix r0
    assume r0: "envio_id r0 = seq d + 1"
      and eq: "crear_envio ev d j =
               (\<lparr>rows = rows d @ [r0], seq = seq d + 1, pending = [], written = []\<rparr>,
                Inr (ok (to_dict r0) 201))"
    from eq c have d1: "d1 = \<lparr>rows = rows d @ [r0], seq = seq d + 1, pending = [], written = []\<rparr>"
      and out: "out = Inr (ok (to_dict r0) 201)" by simp_all
    from db_ok_append [OF ok r0] d1 have "db_ok d1" by simp
    with d' have "d' = d1" by (simp add: shutdown_ok)
    with \<open>db_ok d1\<close> d1 out r0 show ?thesis by simp
  next
    fix r0
    assume r0: "envio_id r0 = seq d + 1"
      and eq: "crear_envio ev d j =
               (\<lparr>rows = rows d @ [r0], seq = seq d + 1, pending = [], written = []\<rparr>,
                Inr (error ''Error al guardar en la base de datos'' 500))"
    from eq c have d1: "d1 = \<lparr>rows = rows d @ [r0], seq = seq d + 1, pending = [], written = []\<rparr>"
      and out: "out = Inr (error ''Error al guardar en la base de datos'' 500)" by simp_all
    from db_ok_append [OF ok r0] d1 have "db_ok d1" by simp
    with d' have "d' = d1" by (simp add: shutdown_ok)
    with \<open>db_ok d1\<close> d1 out show ?thesis by simp
  qed
qed

lemma serve_inv:
  assumes "db_ok d0" "serve d0 reqs = (d, outs)"
  shows "db_ok d \<and> seq d0 \<le> seq d \<and> (\<forall>out \<in> set outs. \<forall>i \<in> returned_ids out. i \<le> seq d)"
  using assms
proof (induction reqs arbitrary: d0 d outs)
  case Nil
  then show ?case by simp
next
  case (Cons r rs)
  obtain d1 out where r: "route d0 r = (d1, out)" by (cases "route d0 r")
  obtain d2 outs' where rs: "serve d1 rs = (d2, outs')" by (cases "serve d1 rs")
  from Cons.prems(2) r rs have eq: "d = d2" "outs = out # outs'" by simp_all
  from route_step [OF Cons.prems(1) r]
  have 1: "db_ok d1" "seq d0 \<le> seq d1" "\<forall>i \<in> returned_ids out. i \<le> seq d1" by simp_all
  from Cons.IH [OF 1(1) rs]
  have 2: "db_ok d2" "seq d1 \<le> seq d2" "\<forall>out \<in> set outs'. \<forall>i \<in> returned_ids out. i \<le> seq d2"
    by simp_all
  from 1 2 eq show ?case by fastforce
qed

text \<open>Every state the service reaches from the empty table is a state between
  requests.\<close>

lemma serve_db_ok: "db_ok (fst (serve empty_db reqs))"
  using serve_inv [OF db_ok_empty, of reqs] by (cases "serve empty_db reqs") simp

subsection \<open>Evaluation and the accepted strings\<close>

lemma zfill_numeral:
  "zfill (numeral n) k = zfill (pred_numeral n) (k div 10) @ [''0123456789'' ! (k mod 10)]"
  by (simp only: numeral_eq_Suc [of n] zfill.simps)

lemma str_t0: "str_datetime t0 = ''2024-05-17 09:30:00''"
  by (simp add: str_datetime_def t0_def zfill_numeral)

lemma fits_short: "length s \<le> n \<Longrightarrow> fits n s = Inr s"
  by (simp add: fits_def)

lemma fits_Inr: "fits n s = Inr t \<Longrightarrow> length t \<le> n"
  by (auto simp: fits_def split: if_splits)

lemma varchar_str:
  "CHR 0x00 \<notin> set s \<Longrightarrow> length s \<le> n \<Longrightarrow> varchar ev n (JStr s) = Inr s"
  by (simp add: varchar_def param_def column_def fits_short)

lemma varchar_Inr:
  assumes "varchar ev n v = Inr t"
  shows "v \<noteq> JNull \<and> length t \<le> n"
  using assms
  by (cases v) (auto simp: varchar_def param_def column_def split: sum.splits if_splits dest: fits_Inr)


subsection \<open>The outcomes of \<open>crear_envio\<close> on any state\<close>







section \<open>The claims\<close>




text \<open>
  Claim C2, as amended. For every create request whose body is a JSON object that lacks
  \<open>destinatario\<close> (recipient), \<open>direccion\<close> (address) or both, the response is the
  error envelope with status 400 whose message names exactly the missing fields, all of
  them and in the order recipient, address, and the state is the one before the request:
  no record is inserted.
\<close>

theorem crear_envio_missing_fields:
  "(map_of kvs ''destinatario'' = None \<and> map_of kvs ''direccion'' \<noteq> None \<longrightarrow>
      crear_envio ev d (Inr (JObj kvs)) =
        (d, Inr \<lparr>body = JObj [(''success'', JBool False),
                               (''error'', JStr ''Faltan campos obligatorios: destinatario'')],
                  status = 400\<rparr>)) \<and>
   (map_of kvs ''destinatario'' \<noteq> None \<and> map_of kvs ''direccion'' = None \<longrightarrow>
      crear_envio ev d (Inr (JObj kvs)) =
        (d, Inr \<lparr>body = JObj [(''success'', JBool False),
                               (''error'', JStr ''Faltan campos obligatorios: direccion'')],
                  status = 400\<rparr>)) \<and>
   (map_of kvs ''destinatario'' = None \<and> map_of kvs ''direccion'' = None \<longrightarrow>
      crear_envio ev d (Inr (JObj kvs)) =
        (d, Inr \<lparr>body = JObj [(''success'', JBool False),
                               (''error'', JStr ''Faltan campos obligatorios: destinatario, direccion'')],
                  status = 400\<rparr>))"
  by (auto simp: crear_envio_absent required_def error_def)

theorem crear_envio_missing_fields_witness:
  "crear_envio ev_up empty_db (Inr (JObj [(''destinatario'', JStr ''Ana Gomez'')])) =
     (empty_db, Inr \<lparr>body = JObj [(''success'', JBool False),
                               (''error'', JStr ''Faltan campos obligatorios: direccion'')],
                  status = 400\<rparr>)
   \<and> crear_envio ev_up empty_db (Inr (JObj [(''direccion'', JStr ''Calle 1'')])) =
     (empty_db, Inr \<lparr>body = JObj [(''success'', JBool False),
                               (''error'', JStr ''Faltan campos obligatorios: destinatario'')],
                  status = 400\<rparr>)
   \<and> crear_envio ev_up empty_db (Inr (JObj [(''estado'', JStr ''Enviado'')])) =
     (empty_db, Inr \<lparr>body = JObj [(''success'', JBool False),
                               (''error'', JStr ''Faltan campos obligatorios: destinatario, direccion'')],
                  status = 400\<rparr>)"
  using crear_envio_missing_fields [of "[(''destinatario'', JStr ''Ana Gomez'')]" ev_up empty_db]
    crear_envio_missing_fields [of "[(''direccion'', JStr ''Calle 1'')]" ev_up empty_db]
    crear_envio_missing_fields [of "[(''estado'', JStr ''Enviado'')]" ev_up empty_db]
  by simp

text \<open>
  Claim C2 as stated fails for bodies that are not JSON objects, which lack both fields.
  For the body \<open>5\<close> or \<open>true\<close> the test \<open>f not in data\<close> raises a \<open>TypeError\<close>,
  which leaves the handler: no 400 is returned. For the list \<open>["direccion"]\<close> the test
  is element membership, and the message names \<open>destinatario\<close> only.
\<close>

theorem crear_envio_missing_fields_counterexample:
  "crear_envio ev_up empty_db (Inr (JNum 5)) = (empty_db, Inl TypeError)
   \<and> crear_envio ev_up empty_db (Inr (JBool True)) = (empty_db, Inl TypeError)
   \<and> crear_envio ev_up empty_db (Inr (JArr [JStr ''direccion''])) =
       (empty_db, Inr \<lparr>body = JObj [(''success'', JBool False),
                               (''error'', JStr ''Faltan campos obligatorios: destinatario'')],
                  status = 400\<rparr>)"
  by (simp add: crear_envio_def required_def error_def)

text \<open>
  Claim C3, as amended. While the database is reachable, for every integer id
  \<open>obtener_envio\<close> returns the error envelope with the fixed not-found message and
  status 404 exactly when no stored record has that id, and a response of status 200
  exactly when some stored record has it; in a state between requests (where ids are
  distinct) the response for the id of a stored record is status 200 with the success
  envelope of exactly that record.
\<close>

theorem obtener_envio_found_iff:
  "\<not> db_down ev \<longrightarrow>
      ((obtener_envio ev d i =
          Inr \<lparr>body = JObj [(''success'', JBool False),
                            (''error'', JStr (''Env'' @ [CHR 0xED] @ ''o no encontrado''))],
               status = 404\<rparr>)
         = (\<forall>e \<in> set (rows d). envio_id e \<noteq> i)) \<and>
      ((\<exists>resp. obtener_envio ev d i = Inr resp \<and> status resp = 200)
         = (\<exists>e \<in> set (rows d). envio_id e = i)) \<and>
      (db_ok d \<longrightarrow>
         (\<forall>e \<in> set (rows d).
            obtener_envio ev d (envio_id e) =
              Inr \<lparr>body = JObj
                     [(''success'', JBool True),
                      (''data'', JObj
                         [(''id'', JNum (envio_id e)),
                          (''destinatario'', JStr (destinatario e)),
                          (''direccion'', JStr (direccion e)),
                          (''estado'', JStr (estado e)),
                          (''fecha_registro'', JStr (str_datetime (fecha_registro e)))])],
                   status = 200\<rparr>))"
proof (intro conjI impI ballI)
  assume up: "\<not> db_down ev"
  show "(obtener_envio ev d i =
          Inr \<lparr>body = JObj [(''success'', JBool False),
                            (''error'', JStr (''Env'' @ [CHR 0xED] @ ''o no encontrado''))],
               status = 404\<rparr>)
         = (\<forall>e \<in> set (rows d). envio_id e \<noteq> i)"
    by (cases "find (\<lambda>e. envio_id e = i) (rows d)")
      (simp_all add: obtener_envio_up [OF up] ok_def error_def flip: find_id_None)
  show "(\<exists>resp. obtener_envio ev d i = Inr resp \<and> status resp = 200)
         = (\<exists>e \<in> set (rows d). envio_id e = i)"
  proof (cases "find (\<lambda>e. envio_id e = i) (rows d)")
    case None
    moreover from None have "\<forall>e \<in> set (rows d). envio_id e \<noteq> i" by (simp add: find_id_None)
    ultimately show ?thesis by (auto simp: obtener_envio_up [OF up] error_def)
  next
    case (Some e)
    moreover from find_id_Some [OF Some] have "\<exists>e \<in> set (rows d). envio_id e = i" by blast
    ultimately show ?thesis by (simp add: obtener_envio_up [OF up] ok_def)
  qed
next
  fix e
  assume up: "\<not> db_down ev" and "db_ok d" "e \<in> set (rows d)"
  then have "find (\<lambda>x. envio_id x = envio_id e) (rows d) = Some e"
    by (simp add: db_ok_def find_id_distinct)
  then show "obtener_envio ev d (envio_id e) =
              Inr \<lparr>body = JObj
                     [(''success'', JBool True),
                      (''data'', JObj
                         [(''id'', JNum (envio_id e)),
                          (''destinatario'', JStr (destinatario e)),
                          (''direccion'', JStr (direccion e)),
                          (''estado'', JStr (estado e)),
                          (''fecha_registro'', JStr (str_datetime (fecha_registro e)))])],
                   status = 200\<rparr>"
    by (simp add: obtener_envio_up [OF up] ok_def to_dict_def)
qed

theorem obtener_envio_found_iff_witness:
  "obtener_envio ev_up
     \<lparr>rows = [\<lparr>envio_id = 1, destinatario = ''Luis Mora'', direccion = ''Carrera 7'',
               estado = ''Registrado'', fecha_registro = t0\<rparr>,
             \<lparr>envio_id = 2, destinatario = ''Ana Gomez'', direccion = ''Calle 1'',
               estado = ''Enviado'', fecha_registro = t0\<rparr>],
       seq = 2, pending = [], written = []\<rparr> 2 =
     Inr \<lparr>body = JObj
            [(''success'', JBool True),
             (''data'', JObj [(''id'', JNum 2), (''destinatario'', JStr ''Ana Gomez''),
               (''direccion'', JStr ''Calle 1''), (''estado'', JStr ''Enviado''),
               (''fecha_registro'', JStr ''2024-05-17 09:30:00'')])],
          status = 200\<rparr>
   \<and> obtener_envio ev_up
     \<lparr>rows = [\<lparr>envio_id = 1, destinatario = ''Luis Mora'', direccion = ''Carrera 7'',
               estado = ''Registrado'', fecha_registro = t0\<rparr>,
             \<lparr>envio_id = 2, destinatario = ''Ana Gomez'', direccion = ''Calle 1'',
               estado = ''Enviado'', fecha_registro = t0\<rparr>],
       seq = 2, pending = [], written = []\<rparr> 999999 =
     Inr \<lparr>body = JObj [(''success'', JBool False),
                       (''error'', JStr (''Env'' @ [CHR 0xED] @ ''o no encontrado''))],
          status = 404\<rparr>"
  using obtener_envio_found_iff [of ev_up
     "\<lparr>rows = [\<lparr>envio_id = 1, destinatario = ''Luis Mora'', direccion = ''Carrera 7'',
               estado = ''Registrado'', fecha_registro = t0\<rparr>,
             \<lparr>envio_id = 2, destinatario = ''Ana Gomez'', direccion = ''Calle 1'',
               estado = ''Enviado'', fecha_registro = t0\<rparr>],
       seq = 2, pending = [], written = []\<rparr>" 999999]
  by (simp add: db_ok_def str_t0 ev_up_def)

text \<open>
  Claim C3 as stated fails while the database is unreachable: for the id of a stored
  record there is no 200, and for an id that no record has there is no 404; in both cases
  the \<open>OperationalError\<close> of the query leaves the handler.
\<close>

theorem obtener_envio_found_iff_counterexample:
  "obtener_envio ev_down
     \<lparr>rows = [\<lparr>envio_id = 1, destinatario = ''Luis Mora'', direccion = ''Carrera 7'',
               estado = ''Registrado'', fecha_registro = t0\<rparr>],
       seq = 1, pending = [], written = []\<rparr> 1 = Inl OperationalError
   \<and> obtener_envio ev_down
     \<lparr>rows = [\<lparr>envio_id = 1, destinatario = ''Luis Mora'', direccion = ''Carrera 7'',
               estado = ''Registrado'', fecha_registro = t0\<rparr>],
       seq = 1, pending = [], written = []\<rparr> 999999 = Inl OperationalError"
  by (simp add: obtener_envio_def query_get_def ev_down_def)

text \<open>
  Claim C4, as amended. When the body of a create request has both required keys and the
  commit of the instance built from it raises an \<open>SQLAlchemyError\<close>, the handler rolls
  the session back: the table is as before the request, the transaction holds no row and
  the session no pending instance, and the response is the error envelope with the
  generic message and status 500. (The sequence of the primary key is not part of this:
  a refused statement may have consumed a value.)
\<close>

theorem crear_envio_rollback:
  assumes k: "map_of kvs ''destinatario'' = Some v1" "map_of kvs ''direccion'' = Some v2"
    and f: "session_commit ev (session_add d
           \<lparr>new_destinatario = v1, new_direccion = v2,
            new_estado = (case map_of kvs ''estado'' of None \<Rightarrow> JStr ''Registrado'' | Some v \<Rightarrow> v)\<rparr>)
          = Inl (e, d_f)"
    and sq: "is_SQLAlchemyError e"
  shows "rows (fst (crear_envio ev d (Inr (JObj kvs)))) = rows d \<and>
         written (fst (crear_envio ev d (Inr (JObj kvs)))) = [] \<and>
         pending (fst (crear_envio ev d (Inr (JObj kvs)))) = [] \<and>
         snd (crear_envio ev d (Inr (JObj kvs))) =
           Inr \<lparr>body = JObj [(''success'', JBool False),
                             (''error'', JStr ''Error al guardar en la base de datos'')],
                status = 500\<rparr>"
proof -
  have "crear_envio ev d (Inr (JObj kvs)) =
      (session_rollback d_f, Inr (error ''Error al guardar en la base de datos'' 500))"
    by (simp only: crear_envio_present [OF k] f sq sum.case prod.case
        except_SQLAlchemyError_def if_True)
  moreover from commit_Inl [OF f] have "rows d_f = rows d" by (simp add: session_add_def)
  ultimately show ?thesis
    by (simp add: session_rollback_def error_def)
qed

theorem crear_envio_rollback_witness:
  "rows (fst (crear_envio ev_up
     \<lparr>rows = [\<lparr>envio_id = 1, destinatario = ''Luis Mora'', direccion = ''Carrera 7'',
               estado = ''Registrado'', fecha_registro = t0\<rparr>],
       seq = 1, pending = [], written = []\<rparr>
     (Inr (JObj [(''destinatario'', JNull), (''direccion'', JStr ''Calle 1'')])))) =
     [\<lparr>envio_id = 1, destinatario = ''Luis Mora'', direccion = ''Carrera 7'',
       estado = ''Registrado'', fecha_registro = t0\<rparr>]
   \<and> snd (crear_envio ev_up
     \<lparr>rows = [\<lparr>envio_id = 1, destinatario = ''Luis Mora'', direccion = ''Carrera 7'',
               estado = ''Registrado'', fecha_registro = t0\<rparr>],
       seq = 1, pending = [], written = []\<rparr>
     (Inr (JObj [(''destinatario'', JNull), (''direccion'', JStr ''Calle 1'')]))) =
     Inr \<lparr>body = JObj [(''success'', JBool False),
                       (''error'', JStr ''Error al guardar en la base de datos'')],
          status = 500\<rparr>"
proof -
  let ?d = "\<lparr>rows = [\<lparr>envio_id = 1, destinatario = ''Luis Mora'', direccion = ''Carrera 7'',
               estado = ''Registrado'', fecha_registro = t0\<rparr>],
       seq = 1, pending = [], written = []\<rparr>"
  let ?kvs = "[(''destinatario'', JNull), (''direccion'', JStr ''Calle 1'')]"
  let ?x = "\<lparr>new_destinatario = JNull, new_direccion = JStr ''Calle 1'',
            new_estado = (case map_of ?kvs ''estado'' of None \<Rightarrow> JStr ''Registrado'' | Some v \<Rightarrow> v)\<rparr>"
  have 1: "map_of ?kvs ''destinatario'' = Some JNull" by simp
  have 2: "map_of ?kvs ''direccion'' = Some (JStr ''Calle 1'')" by simp
  have 3: "session_commit ev_up (session_add ?d ?x) =
      Inl (IntegrityError, refused ev_up (session_add ?d ?x))"
    by (simp add: session_commit_def session_add_def insert_row_def param_def column_def
        with_default_def max_id_def ev_up_def)
  have 4: "is_SQLAlchemyError IntegrityError" by simp
  from crear_envio_rollback [OF 1 2 3 4] show ?thesis by simp
qed

text \<open>
  Claim C4 as stated fails for an insert that fails with an exception that is not an
  \<open>SQLAlchemyError\<close>: for a recipient holding the character U+0000 the driver raises a
  \<open>ValueError\<close>, the \<open>except\<close> clause does not apply, no rollback is called by the
  handler (the session still holds the instance) and no 500 envelope is returned.
\<close>

theorem crear_envio_rollback_counterexample:
  "snd (crear_envio ev_up empty_db
     (Inr (JObj [(''destinatario'', JStr [CHR ''a'', CHR 0x00, CHR ''b'']), (''direccion'', JStr ''Calle 1'')]))) =
     Inl ValueError
   \<and> pending (fst (crear_envio ev_up empty_db
     (Inr (JObj [(''destinatario'', JStr [CHR ''a'', CHR 0x00, CHR ''b'']), (''direccion'', JStr ''Calle 1'')])))) =
     [\<lparr>new_destinatario = JStr [CHR ''a'', CHR 0x00, CHR ''b''], new_direccion = JStr ''Calle 1'',
       new_estado = JStr ''Registrado''\<rparr>]"
  by (simp add: crear_envio_def except_SQLAlchemyError_def refresh_def required_def session_add_def session_commit_def
      insert_row_def param_def empty_db_def ev_up_def)

text \<open>
  Claim C5, as amended. For a body that is a JSON object, the validation of a create
  request checks only that the keys \<open>destinatario\<close> (recipient) and \<open>direccion\<close>
  (address) are present, whatever their values: the list of missing fields is empty
  exactly when both keys are present, and the response is a 400 error envelope exactly
  when one of them is absent.
\<close>

theorem validation_presence_only:
  "((missing_fields required (JObj kvs) = Inr [])
      = (map_of kvs ''destinatario'' \<noteq> None \<and> map_of kvs ''direccion'' \<noteq> None)) \<and>
   ((\<exists>resp. snd (crear_envio ev d (Inr (JObj kvs))) = Inr resp \<and> status resp = 400)
      = (map_of kvs ''destinatario'' = None \<or> map_of kvs ''direccion'' = None))"
proof (intro conjI)
  show "(missing_fields required (JObj kvs) = Inr [])
      = (map_of kvs ''destinatario'' \<noteq> None \<and> map_of kvs ''direccion'' \<noteq> None)"
    by (auto simp: required_def)
  show "(\<exists>resp. snd (crear_envio ev d (Inr (JObj kvs))) = Inr resp \<and> status resp = 400)
      = (map_of kvs ''destinatario'' = None \<or> map_of kvs ''direccion'' = None)"
  proof (cases "map_of kvs ''destinatario'' = None \<or> map_of kvs ''direccion'' = None")
    case True
    then have "\<exists>resp. snd (crear_envio ev d (Inr (JObj kvs))) = Inr resp \<and> status resp = 400"
      by (simp only: crear_envio_absent snd_conv) (simp add: error_def)
    with True show ?thesis by simp
  next
    case False
    then obtain v1 v2 where v: "map_of kvs ''destinatario'' = Some v1" "map_of kvs ''direccion'' = Some v2"
      by auto
    have "\<forall>resp. snd (crear_envio ev d (Inr (JObj kvs))) = Inr resp \<longrightarrow> status resp \<noteq> 400"
      unfolding crear_envio_present [OF v]
      by (auto simp: error_def ok_def except_SQLAlchemyError_def refresh_def
          split: sum.splits prod.splits if_splits)
    with False show ?thesis by auto
  qed
qed

theorem validation_presence_only_witness:
  "missing_fields required (JObj [(''destinatario'', JStr []), (''direccion'', JNull)]) = Inr []
   \<and> (\<exists>resp. snd (crear_envio ev_up empty_db (Inr (JObj [(''destinatario'', JStr ''Ana Gomez'')]))) =
          Inr resp \<and> status resp = 400)"
  using validation_presence_only [of "[(''destinatario'', JStr []), (''direccion'', JNull)]" ev_up empty_db]
    validation_presence_only [of "[(''destinatario'', JStr ''Ana Gomez'')]" ev_up empty_db]
  by simp

text \<open>
  Claim C5 as stated fails for a field that is present with the value \<open>null\<close>: the
  validation passes (no field is missing), the \<open>NOT NULL\<close> column refuses the insert, and
  the response is the 500 envelope of a persistence failure, not a 400. It also fails for
  the body \<open>5\<close>, in which both fields are absent: the validation neither fails nor
  passes, it raises a \<open>TypeError\<close>.
\<close>

theorem validation_presence_only_counterexample:
  "missing_fields required (JObj [(''destinatario'', JNull), (''direccion'', JStr ''Calle 1'')]) = Inr []
   \<and> snd (crear_envio ev_up empty_db (Inr (JObj [(''destinatario'', JNull), (''direccion'', JStr ''Calle 1'')]))) =
       Inr \<lparr>body = JObj [(''success'', JBool False),
                         (''error'', JStr ''Error al guardar en la base de datos'')],
            status = 500\<rparr>
   \<and> missing_fields required (JNum 5) = Inl TypeError"
  by (simp add: crear_envio_def except_SQLAlchemyError_def refresh_def required_def session_add_def session_commit_def session_rollback_def
      insert_row_def param_def column_def with_default_def refused_def max_id_def
      empty_db_def ev_up_def error_def)

text \<open>
  Claim C6, as amended. Whenever a create request changes the table, its body is a JSON
  object in which the keys \<open>destinatario\<close> and \<open>direccion\<close> are present with values
  that are not \<open>null\<close>; exactly one record is appended, and its recipient and address are
  what the string columns of widths 120 and 200 stored for these values, within those
  widths. Emptiness is not checked anywhere.
\<close>

theorem persisted_fields_present:
  assumes ok: "db_ok d" and c: "crear_envio ev d rq = (d', out)" and ch: "rows d' \<noteq> rows d"
  shows "\<exists>kvs v1 v2 e.
           rq = Inr (JObj kvs) \<and> rows d' = rows d @ [e] \<and>
           map_of kvs ''destinatario'' = Some v1 \<and> v1 \<noteq> JNull \<and>
           varchar ev 120 v1 = Inr (destinatario e) \<and> length (destinatario e) \<le> 120 \<and>
           map_of kvs ''direccion'' = Some v2 \<and> v2 \<noteq> JNull \<and>
           varchar ev 200 v2 = Inr (direccion e) \<and> length (direccion e) \<le> 200"
proof -
  from ok have p: "pending d = []" and w: "written d = []" by (simp_all add: db_ok_def)
  have dict: "\<exists>kvs. rq = Inr (JObj kvs)"
  proof (rule ccontr)
    assume n: "\<not> (\<exists>kvs. rq = Inr (JObj kvs))"
    have "fst (crear_envio ev d rq) = d"
    proof (cases rq)
      case (Inl e)
      then show ?thesis by (simp add: crear_envio_raises)
    next
      case (Inr j)
      with n have "\<forall>kvs. j \<noteq> JObj kvs" by simp
      from crear_envio_not_dict [OF this] Inr show ?thesis by simp
    qed
    with c ch show False by simp
  qed
  then obtain kvs where rq: "rq = Inr (JObj kvs)" by blast
  from p w show ?thesis
  proof (cases rule: crear_envio_dict_cases [where kvs = kvs and ev = ev])
    case absent
    from absent(2) c rq have "rows d' = rows d" by auto
    with ch show ?thesis by simp
  next
    case (refused v1 v2 s)
    from refused(4) c rq have "rows d' = rows d" by auto
    with ch show ?thesis by simp
  next
    case (raised v1 v2 e d1)
    from raised(4,7) c rq have "rows d' = rows d" by auto
    with ch show ?thesis by simp
  next
    case (stored v1 v2 r)
    from stored(11) c rq have "rows d' = rows d @ [r]" by auto
    with rq stored(1-4) varchar_Inr [OF stored(3)] varchar_Inr [OF stored(4)]
    show ?thesis by blast
  next
    case (lost v1 v2 r)
    from lost(11) c rq have "rows d' = rows d @ [r]" by auto
    with rq lost(1-4) varchar_Inr [OF lost(3)] varchar_Inr [OF lost(4)]
    show ?thesis by blast
  qed
qed

theorem persisted_fields_present_witness:
  "\<exists>kvs v1 v2 e.
     (Inr (JObj [(''destinatario'', JStr ''Ana Gomez''), (''direccion'', JStr ''Calle 1'')]) :: exn + json)
       = Inr (JObj kvs) \<and>
     [\<lparr>envio_id = 1, destinatario = ''Ana Gomez'', direccion = ''Calle 1'', estado = ''Registrado'',
       fecha_registro = t0\<rparr>] = rows empty_db @ [e] \<and>
     map_of kvs ''destinatario'' = Some v1 \<and> v1 \<noteq> JNull \<and>
     varchar ev_up 120 v1 = Inr (destinatario e) \<and> length (destinatario e) \<le> 120 \<and>
     map_of kvs ''direccion'' = Some v2 \<and> v2 \<noteq> JNull \<and>
     varchar ev_up 200 v2 = Inr (direccion e) \<and> length (direccion e) \<le> 200"
proof -
  have ok: "db_ok empty_db" by (rule db_ok_empty)
  have c: "crear_envio ev_up empty_db
      (Inr (JObj [(''destinatario'', JStr ''Ana Gomez''), (''direccion'', JStr ''Calle 1'')])) =
     (\<lparr>rows = [\<lparr>envio_id = 1, destinatario = ''Ana Gomez'', direccion = ''Calle 1'',
               estado = ''Registrado'', fecha_registro = t0\<rparr>],
       seq = 1, pending = [], written = []\<rparr>,
      Inr (ok (to_dict \<lparr>envio_id = 1, destinatario = ''Ana Gomez'', direccion = ''Calle 1'',
               estado = ''Registrado'', fecha_registro = t0\<rparr>) 201))"
    by (simp add: crear_envio_def except_SQLAlchemyError_def refresh_def required_def session_add_def session_commit_def insert_row_def
        param_def column_def with_default_def fits_def max_id_def empty_db_def ev_up_def Let_def)
  have ch: "rows \<lparr>rows = [\<lparr>envio_id = 1, destinatario = ''Ana Gomez'', direccion = ''Calle 1'',
               estado = ''Registrado'', fecha_registro = t0\<rparr>],
       seq = 1, pending = [], written = []\<rparr> \<noteq> rows empty_db"
    by (simp add: empty_db_def)
  from persisted_fields_present [OF ok c ch] show ?thesis by simp
qed

text \<open>
  Claim C6 as stated fails: a create request whose recipient and address are the empty
  string passes the validation (both keys are present), and the record is stored with
  both fields empty.
\<close>

theorem persisted_fields_present_counterexample:
  "crear_envio ev_up empty_db (Inr (JObj [(''destinatario'', JStr []), (''direccion'', JStr [])])) =
     (\<lparr>rows = [\<lparr>envio_id = 1, destinatario = [], direccion = [], estado = ''Registrado'',
               fecha_registro = t0\<rparr>],
       seq = 1, pending = [], written = []\<rparr>,
      Inr (ok (JObj [(''id'', JNum 1), (''destinatario'', JStr []), (''direccion'', JStr []),
                     (''estado'', JStr ''Registrado''),
                     (''fecha_registro'', JStr ''2024-05-17 09:30:00'')]) 201))"
  by (simp add: crear_envio_def except_SQLAlchemyError_def refresh_def required_def session_add_def session_commit_def insert_row_def
      param_def column_def with_default_def fits_def max_id_def empty_db_def ev_up_def
      to_dict_def str_t0 Let_def)

text \<open>
  Claim C7, as amended. When \<open>request.json\<close> evaluates to \<open>None\<close> or to any other
  false value (\<open>{}\<close>, \<open>[]\<close>, the empty string, \<open>0\<close>, \<open>false\<close>), the request is
  treated as a create request with an empty object body: the response is the 400 error
  envelope that lists both required fields, and the state is unchanged.
\<close>

theorem crear_envio_no_body:
  "\<not> truthy j \<Longrightarrow>
     crear_envio ev d (Inr j) =
       (d, Inr (error ''Faltan campos obligatorios: destinatario, direccion'' 400))"
  by (simp add: crear_envio_def required_def)

theorem crear_envio_no_body_witness:
  "crear_envio ev_up empty_db (Inr JNull) =
     (empty_db, Inr (error ''Faltan campos obligatorios: destinatario, direccion'' 400))
   \<and> crear_envio ev_up empty_db (Inr (JObj [])) =
     (empty_db, Inr (error ''Faltan campos obligatorios: destinatario, direccion'' 400))"
  using crear_envio_no_body [of JNull ev_up empty_db] crear_envio_no_body [of "JObj []" ev_up empty_db]
  by simp

text \<open>
  Claim C7 as stated fails for an unparseable body: Flask's \<open>request.json\<close> does not
  evaluate to \<open>None\<close> then, it raises \<open>BadRequest\<close> (an \<open>HTTPException\<close> with status
  400). The expression \<open>request.json or {}\<close> never gets to its second operand, the
  handler has no \<open>except\<close> around it, and the exception leaves the handler: the
  validation is not reached and no envelope is returned.
\<close>

theorem crear_envio_no_body_counterexample:
  "crear_envio ev_up empty_db (Inl (HTTPException 400)) = (empty_db, Inl (HTTPException 400))"
  by (simp add: crear_envio_def)

text \<open>
  Claim C8, as amended. When a create request made in a state between requests is
  answered with status 201, the response is the success envelope of a record \<open>e\<close> that
  is now stored, the end of the request leaves the state as the handler left it, and a
  \<open>GET\<close> for the id of \<open>e\<close> on that state, made while the database is reachable,
  returns status 200 with the same body: the same serialized record under \<open>data\<close>,
  field for field.
\<close>

theorem post_get_round_trip:
  assumes ok: "db_ok d" and c: "crear_envio ev d rq = (d', Inr resp)" and s: "status resp = 201"
    and up: "\<not> db_down ev'"
  shows "\<exists>e. e \<in> set (rows d') \<and> shutdown_session d' = d' \<and>
             resp = \<lparr>body = JObj
                       [(''success'', JBool True),
                        (''data'', JObj
                           [(''id'', JNum (envio_id e)),
                            (''destinatario'', JStr (destinatario e)),
                            (''direccion'', JStr (direccion e)),
                            (''estado'', JStr (estado e)),
                            (''fecha_registro'', JStr (str_datetime (fecha_registro e)))])],
                     status = 201\<rparr> \<and>
             obtener_envio ev' d' (envio_id e) =
               Inr \<lparr>body = JObj
                       [(''success'', JBool True),
                        (''data'', JObj
                           [(''id'', JNum (envio_id e)),
                            (''destinatario'', JStr (destinatario e)),
                            (''direccion'', JStr (direccion e)),
                            (''estado'', JStr (estado e)),
                            (''fecha_registro'', JStr (str_datetime (fecha_registro e)))])],
                     status = 200\<rparr>"
proof -
  from ok have p: "pending d = []" and w: "written d = []" by (simp_all add: db_ok_def)
  from crear_envio_step [OF p w, of ev rq] c s
  obtain r where r: "envio_id r = seq d + 1"
    and eq: "crear_envio ev d rq =
      (\<lparr>rows = rows d @ [r], seq = seq d + 1, pending = [], written = []\<rparr>,
       Inr (ok (to_dict r) 201))"
    by (auto simp: error_def)
  from eq c have d': "d' = \<lparr>rows = rows d @ [r], seq = seq d + 1, pending = [], written = []\<rparr>"
    and resp: "resp = ok (to_dict r) 201" by simp_all
  from db_ok_append [OF ok r] d' have ok': "db_ok d'" by simp
  then have "distinct (map envio_id (rows d'))" by (simp add: db_ok_def)
  moreover have in_rows: "r \<in> set (rows d')" by (simp add: d')
  ultimately have "find (\<lambda>x. envio_id x = envio_id r) (rows d') = Some r"
    by (rule find_id_distinct)
  then have "obtener_envio ev' d' (envio_id r) = Inr (ok (to_dict r) 200)"
    by (simp add: obtener_envio_up [OF up])
  with resp in_rows shutdown_ok [OF ok'] show ?thesis
    by (intro exI [of _ r]) (simp add: ok_def to_dict_def)
qed

theorem post_get_round_trip_witness:
  "obtener_envio ev_up
     \<lparr>rows = [\<lparr>envio_id = 1, destinatario = ''Luis Mora'', direccion = ''Carrera 7'',
               estado = ''Registrado'', fecha_registro = t0\<rparr>,
             \<lparr>envio_id = 2, destinatario = ''Ana Gomez'', direccion = ''Calle 1'',
               estado = ''Enviado'', fecha_registro = t0\<rparr>],
       seq = 2, pending = [], written = []\<rparr> 2 =
     Inr \<lparr>body = JObj
            [(''success'', JBool True),
             (''data'', JObj [(''id'', JNum 2), (''destinatario'', JStr ''Ana Gomez''),
                   (''direccion'', JStr ''Calle 1''), (''estado'', JStr ''Enviado''),
                   (''fecha_registro'', JStr ''2024-05-17 09:30:00'')])],
          status = 200\<rparr>"
proof -
  let ?d = "\<lparr>rows = [\<lparr>envio_id = 1, destinatario = ''Luis Mora'', direccion = ''Carrera 7'',
               estado = ''Registrado'', fecha_registro = t0\<rparr>],
       seq = 1, pending = [], written = []\<rparr>"
  let ?d' = "\<lparr>rows = [\<lparr>envio_id = 1, destinatario = ''Luis Mora'', direccion = ''Carrera 7'',
               estado = ''Registrado'', fecha_registro = t0\<rparr>,
             \<lparr>envio_id = 2, destinatario = ''Ana Gomez'', direccion = ''Calle 1'',
               estado = ''Enviado'', fecha_registro = t0\<rparr>],
       seq = 2, pending = [], written = []\<rparr>"
  let ?resp = "\<lparr>body = JObj
            [(''success'', JBool True),
             (''data'', JObj [(''id'', JNum 2), (''destinatario'', JStr ''Ana Gomez''),
                   (''direccion'', JStr ''Calle 1''), (''estado'', JStr ''Enviado''),
                   (''fecha_registro'', JStr ''2024-05-17 09:30:00'')])],
          status = 201\<rparr>"
  have ok: "db_ok ?d" by (simp add: db_ok_def)
  have c: "crear_envio ev_up ?d
     (Inr (JObj [(''destinatario'', JStr ''Ana Gomez''), (''direccion'', JStr ''Calle 1''),
                 (''estado'', JStr ''Enviado'')])) = (?d', Inr ?resp)"
    by (simp add: crear_envio_def except_SQLAlchemyError_def refresh_def required_def session_add_def session_commit_def insert_row_def
        param_def column_def with_default_def fits_def max_id_def ev_up_def to_dict_def ok_def
        str_t0 Let_def)
  have s: "status ?resp = 201" by simp
  have up: "\<not> db_down ev_up" by (simp add: ev_up_def)
  from post_get_round_trip [OF ok c s up] show ?thesis
  proof (elim exE conjE)
    fix e
    assume e: "?resp = \<lparr>body = JObj
                       [(''success'', JBool True),
                        (''data'', JObj
                           [(''id'', JNum (envio_id e)),
                            (''destinatario'', JStr (destinatario e)),
                            (''direccion'', JStr (direccion e)),
                            (''estado'', JStr (estado e)),
                            (''fecha_registro'', JStr (str_datetime (fecha_registro e)))])],
                     status = 201\<rparr>"
      and g: "obtener_envio ev_up ?d' (envio_id e) =
               Inr \<lparr>body = JObj
                       [(''success'', JBool True),
                        (''data'', JObj
                           [(''id'', JNum (envio_id e)),
                            (''destinatario'', JStr (destinatario e)),
                            (''direccion'', JStr (direccion e)),
                            (''estado'', JStr (estado e)),
                            (''fecha_registro'', JStr (str_datetime (fecha_registro e)))])],
                     status = 200\<rparr>"
    from e have "envio_id e = 2" "destinatario e = ''Ana Gomez''" "direccion e = ''Calle 1''"
      "estado e = ''Enviado''" "str_datetime (fecha_registro e) = ''2024-05-17 09:30:00''"
      by simp_all
    with g show ?thesis by simp
  qed
qed

text \<open>
  Claim C8 as stated fails when the database has become unreachable between the two
  requests: the create is answered with status 201 and the id 1, and the \<open>GET\<close> for
  the id 1 on the resulting state returns no object, the \<open>OperationalError\<close> of the
  query leaves the handler.
\<close>

theorem post_get_round_trip_counterexample:
  "crear_envio ev_up empty_db
      (Inr (JObj [(''destinatario'', JStr ''Ana Gomez''), (''direccion'', JStr ''Calle 1'')])) =
     (\<lparr>rows = [\<lparr>envio_id = 1, destinatario = ''Ana Gomez'', direccion = ''Calle 1'',
               estado = ''Registrado'', fecha_registro = t0\<rparr>],
       seq = 1, pending = [], written = []\<rparr>,
      Inr \<lparr>body = JObj
            [(''success'', JBool True),
             (''data'', JObj [(''id'', JNum 1), (''destinatario'', JStr ''Ana Gomez''),
                   (''direccion'', JStr ''Calle 1''), (''estado'', JStr ''Registrado''),
                   (''fecha_registro'', JStr ''2024-05-17 09:30:00'')])],
          status = 201\<rparr>)
   \<and> obtener_envio ev_down
     \<lparr>rows = [\<lparr>envio_id = 1, destinatario = ''Ana Gomez'', direccion = ''Calle 1'',
               estado = ''Registrado'', fecha_registro = t0\<rparr>],
       seq = 1, pending = [], written = []\<rparr> 1 = Inl OperationalError"
  by (simp add: crear_envio_def except_SQLAlchemyError_def refresh_def required_def session_add_def session_commit_def insert_row_def
      param_def column_def with_default_def fits_def max_id_def empty_db_def ev_up_def ev_down_def
      to_dict_def ok_def str_t0 Let_def obtener_envio_def query_get_def)




text \<open>
  Claim C10. Two bodies that agree on the keys \<open>destinatario\<close>, \<open>direccion\<close> and
  \<open>estado\<close> get the same response and leave the same state, whatever other keys they
  carry (an \<open>id\<close> or a \<open>fecha_registro\<close> of the client included). In a state between
  requests a create either leaves the table as it was, with no row in the transaction and
  the sequence not behind its former value, or it appends one record, whose id is the
  next value of the sequence and whose \<open>fecha_registro\<close> is the server's clock.
\<close>

theorem crear_envio_frame:
  assumes k1: "map_of kvs ''destinatario'' = map_of kvs' ''destinatario''"
    and k2: "map_of kvs ''direccion'' = map_of kvs' ''direccion''"
    and k3: "map_of kvs ''estado'' = map_of kvs' ''estado''"
  shows "crear_envio ev d (Inr (JObj kvs)) = crear_envio ev d (Inr (JObj kvs')) \<and>
         (db_ok d \<longrightarrow>
            rows (fst (crear_envio ev d (Inr (JObj kvs)))) = rows d \<and>
            written (fst (crear_envio ev d (Inr (JObj kvs)))) = [] \<and>
            seq d \<le> seq (fst (crear_envio ev d (Inr (JObj kvs)))) \<or>
            (\<exists>e. fst (crear_envio ev d (Inr (JObj kvs))) =
                   \<lparr>rows = rows d @ [e], seq = seq d + 1, pending = [], written = []\<rparr> \<and>
                 envio_id e = seq d + 1 \<and> fecha_registro e = now ev))"
proof (intro conjI impI)
  show "crear_envio ev d (Inr (JObj kvs)) = crear_envio ev d (Inr (JObj kvs'))"
  proof (cases "map_of kvs ''destinatario'' = None \<or> map_of kvs ''direccion'' = None")
    case True
    moreover from True k1 k2
    have "map_of kvs' ''destinatario'' = None \<or> map_of kvs' ''direccion'' = None" by simp
    moreover have "filter (\<lambda>f. map_of kvs f = None) required = filter (\<lambda>f. map_of kvs' f = None) required"
      using k1 k2 by (simp add: required_def)
    ultimately show ?thesis by (simp only: crear_envio_absent)
  next
    case False
    then obtain v1 v2 where v: "map_of kvs ''destinatario'' = Some v1" "map_of kvs ''direccion'' = Some v2"
      by auto
    with k1 k2 have v': "map_of kvs' ''destinatario'' = Some v1" "map_of kvs' ''direccion'' = Some v2"
      by simp_all
    show ?thesis
      by (simp only: crear_envio_present [OF v] crear_envio_present [OF v'] k3)
  qed
next
  assume "db_ok d"
  then have p: "pending d = []" and w: "written d = []" by (simp_all add: db_ok_def)
  from crear_envio_step [OF p w, of ev "Inr (JObj kvs)"]
  show "rows (fst (crear_envio ev d (Inr (JObj kvs)))) = rows d \<and>
        written (fst (crear_envio ev d (Inr (JObj kvs)))) = [] \<and>
        seq d \<le> seq (fst (crear_envio ev d (Inr (JObj kvs)))) \<or>
        (\<exists>e. fst (crear_envio ev d (Inr (JObj kvs))) =
               \<lparr>rows = rows d @ [e], seq = seq d + 1, pending = [], written = []\<rparr> \<and>
             envio_id e = seq d + 1 \<and> fecha_registro e = now ev)"
  proof (elim disjE exE conjE)
    assume "rows (fst (crear_envio ev d (Inr (JObj kvs)))) = rows d"
      "written (fst (crear_envio ev d (Inr (JObj kvs)))) = []"
      "seq d \<le> seq (fst (crear_envio ev d (Inr (JObj kvs))))"
    then show ?thesis by simp
  next
    fix r
    assume "envio_id r = seq d + 1" "fecha_registro r = now ev"
      "crear_envio ev d (Inr (JObj kvs)) =
         (\<lparr>rows = rows d @ [r], seq = seq d + 1, pending = [], written = []\<rparr>,
          Inr (ok (to_dict r) 201))"
    then have "\<exists>e. fst (crear_envio ev d (Inr (JObj kvs))) =
               \<lparr>rows = rows d @ [e], seq = seq d + 1, pending = [], written = []\<rparr> \<and>
             envio_id e = seq d + 1 \<and> fecha_registro e = now ev"
      by (intro exI [of _ r]) simp
    then show ?thesis by (rule disjI2)
  next
    fix r
    assume "envio_id r = seq d + 1" "fecha_registro r = now ev"
      "crear_envio ev d (Inr (JObj kvs)) =
         (\<lparr>rows = rows d @ [r], seq = seq d + 1, pending = [], written = []\<rparr>,
          Inr (error ''Error al guardar en la base de datos'' 500))"
    then have "\<exists>e. fst (crear_envio ev d (Inr (JObj kvs))) =
               \<lparr>rows = rows d @ [e], seq = seq d + 1, pending = [], written = []\<rparr> \<and>
             envio_id e = seq d + 1 \<and> fecha_registro e = now ev"
      by (intro exI [of _ r]) simp
    then show ?thesis by (rule disjI2)
  qed
qed

theorem crear_envio_frame_witness:
  "crear_envio ev_up empty_db
     (Inr (JObj [(''id'', JNum 999), (''fecha_registro'', JStr ''1999-01-01 00:00:00''),
                 (''destinatario'', JStr ''Ana Gomez''), (''direccion'', JStr ''Calle 1''),
                 (''nota'', JStr ''fragil'')])) =
     (\<lparr>rows = [\<lparr>envio_id = 1, destinatario = ''Ana Gomez'', direccion = ''Calle 1'',
               estado = ''Registrado'', fecha_registro = t0\<rparr>],
       seq = 1, pending = [], written = []\<rparr>,
      Inr (ok (JObj [(''id'', JNum 1), (''destinatario'', JStr ''Ana Gomez''),
                     (''direccion'', JStr ''Calle 1''), (''estado'', JStr ''Registrado''),
                     (''fecha_registro'', JStr ''2024-05-17 09:30:00'')]) 201))"
proof -
  have c: "crear_envio ev_up empty_db
      (Inr (JObj [(''destinatario'', JStr ''Ana Gomez''), (''direccion'', JStr ''Calle 1'')])) =
     (\<lparr>rows = [\<lparr>envio_id = 1, destinatario = ''Ana Gomez'', direccion = ''Calle 1'',
               estado = ''Registrado'', fecha_registro = t0\<rparr>],
       seq = 1, pending = [], written = []\<rparr>,
      Inr (ok (JObj [(''id'', JNum 1), (''destinatario'', JStr ''Ana Gomez''),
                     (''direccion'', JStr ''Calle 1''), (''estado'', JStr ''Registrado''),
                     (''fecha_registro'', JStr ''2024-05-17 09:30:00'')]) 201))"
    by (simp add: crear_envio_def except_SQLAlchemyError_def refresh_def required_def session_add_def session_commit_def insert_row_def
        param_def column_def with_default_def fits_def max_id_def empty_db_def ev_up_def
        to_dict_def str_t0 Let_def)
  from crear_envio_frame [of
      "[(''id'', JNum 999), (''fecha_registro'', JStr ''1999-01-01 00:00:00''),
        (''destinatario'', JStr ''Ana Gomez''), (''direccion'', JStr ''Calle 1''),
        (''nota'', JStr ''fragil'')]"
      "[(''destinatario'', JStr ''Ana Gomez''), (''direccion'', JStr ''Calle 1'')]" ev_up empty_db] c
  show ?thesis by simp
qed

end
